theory Spec2Isabelle
  imports Complex_Main
begin

section \<open>JavaScript numbers\<close>

text \<open>
  The components compute with JavaScript numbers (IEEE 754 doubles). A number is modelled
  by the special values \<open>NaN\<close>, the two infinities and negative zero, and otherwise by
  the rational it denotes; \<open>Finite 0\<close> is positive zero. Every double is such a value;
  the theorems hold of every rational. The functions below are the language operators
  the components apply: unary minus, \<open><\<close>, \<open>>\<close>, \<open>!\<close> (through \<open>ToBoolean\<close>) and binary
  minus.
\<close>

datatype number = NaN | PosInf | NegInf | NegZero | Finite rat

text \<open>The mathematical value of a zero or finite number (0 elsewhere, never read there).\<close>

fun mv :: "number \<Rightarrow> rat" where
  "mv (Finite r) = r"
| "mv _ = 0"

text \<open>\<open>ToBoolean\<close>: a number is falsy exactly when it is \<open>+0\<close>, \<open>-0\<close> or \<open>NaN\<close>.\<close>

fun truthy :: "number \<Rightarrow> bool" where
  "truthy NaN = False"
| "truthy NegZero = False"
| "truthy (Finite r) = (r \<noteq> 0)"
| "truthy PosInf = True"
| "truthy NegInf = True"

text \<open>Unary minus: flips the sign, also of zero and of the infinities; \<open>-NaN\<close> is \<open>NaN\<close>.\<close>

fun js_neg :: "number \<Rightarrow> number" where
  "js_neg NaN = NaN"
| "js_neg PosInf = NegInf"
| "js_neg NegInf = PosInf"
| "js_neg NegZero = Finite 0"
| "js_neg (Finite r) = (if r = 0 then NegZero else Finite (- r))"

text \<open>
  \<open>a < b\<close>: false as soon as one side is \<open>NaN\<close>; the two zeros are equal; equations are
  tried in order.
\<close>

fun js_lt :: "number \<Rightarrow> number \<Rightarrow> bool" where
  "js_lt NaN _ = False"
| "js_lt _ NaN = False"
| "js_lt PosInf _ = False"
| "js_lt _ PosInf = True"
| "js_lt _ NegInf = False"
| "js_lt NegInf _ = True"
| "js_lt a b = (mv a < mv b)"

definition js_gt :: "number \<Rightarrow> number \<Rightarrow> bool" where
  "js_gt a b = js_lt b a"

text \<open>
  Rounding of a rational to the nearest double, ties to even: 53 bits of precision,
  exponents from \<open>-1022\<close> (below it the spacing stays \<open>2^-1074\<close>), overflow to infinity
  from \<open>2^1024\<close> on. A result that rounds to zero keeps the sign of the exact value.
\<close>

definition pow_int :: "rat \<Rightarrow> int \<Rightarrow> rat" where
  "pow_int b e = (if 0 \<le> e then b ^ nat e else 1 / b ^ nat (- e))"

definition pow2 :: "int \<Rightarrow> rat" where
  "pow2 e = pow_int 2 e"

function bit_length :: "int \<Rightarrow> int" where
  "bit_length n = (if n \<le> 0 then 0 else 1 + bit_length (n div 2))"
  by pat_completeness auto
termination
  by (relation "measure nat") auto

declare bit_length.simps [simp del]

text \<open>For \<open>a > 0\<close>, the exponent \<open>e\<close> with \<open>2^e \<le> a < 2^(e+1)\<close>.\<close>

definition binary_exponent :: "rat \<Rightarrow> int" where
  "binary_exponent a =
     (let (n, d) = quotient_of a;
          k = bit_length n - bit_length d
      in if pow2 k \<le> a then k else k - 1)"

definition round_half_even :: "rat \<Rightarrow> int" where
  "round_half_even x =
     (let f = \<lfloor>x\<rfloor>; r = x - of_int f
      in if r < 1 / 2 then f
         else if 1 / 2 < r then f + 1
         else if even f then f else f + 1)"

definition round_double :: "rat \<Rightarrow> number" where
  "round_double x =
     (if x = 0 then Finite 0
      else
        let a = \<bar>x\<bar>;
            e = max (binary_exponent a) (- 1022);
            ulp = pow2 (e - 52);
            m = of_int (round_half_even (a / ulp)) * ulp
        in if pow2 1024 \<le> m then (if 0 < x then PosInf else NegInf)
           else if m = 0 then (if 0 < x then Finite 0 else NegZero)
           else Finite (if 0 < x then m else - m))"

text \<open>
  \<open>a - b\<close>: \<open>NaN\<close> when an operand is \<open>NaN\<close> or both are the same infinity; an infinity
  absorbs what is finite; an exact difference of zero is \<open>-0\<close> only for \<open>(-0) - (+0)\<close>;
  any other difference is rounded.
\<close>

fun js_sub :: "number \<Rightarrow> number \<Rightarrow> number" where
  "js_sub NaN _ = NaN"
| "js_sub _ NaN = NaN"
| "js_sub PosInf PosInf = NaN"
| "js_sub NegInf NegInf = NaN"
| "js_sub PosInf _ = PosInf"
| "js_sub NegInf _ = NegInf"
| "js_sub _ PosInf = NegInf"
| "js_sub _ NegInf = PosInf"
| "js_sub a b =
     (if mv a = mv b then (if a = NegZero \<and> b \<noteq> NegZero then NegZero else Finite 0)
      else round_double (mv a - mv b))"

section \<open>The bounty detail view\<close>

text \<open>
  \<open>BountyDetail\<close> reads its data through hooks; each derived value and callback below
  takes the hook results it reads as arguments, under the names the component gives them.
  A value that may be \<open>undefined\<close> is an \<open>option\<close>. The records hold the fields the
  component reads; \<open>supply'\<close> is the mint's \<open>supply\<close>, a raw 64-bit amount.
\<close>

record 'k TokenBonding =
  publicKey :: 'k
  baseMint :: 'k
  targetMint :: 'k
  reserveAuthority :: "'k option"

record MintInfo =
  supply' :: nat
  decimals :: nat

record Pricing =
  buyWithBaseAmount :: "number \<Rightarrow> number"
  sellTargetAmount :: "number \<Rightarrow> number"

text \<open>\<open>!x\<close> for a \<open>number | undefined\<close>.\<close>

fun js_not :: "number option \<Rightarrow> bool" where
  "js_not None = True"
| "js_not (Some x) = (\<not> truthy x)"

text \<open>
  \<open>fundsUsed\<close>, the body of the memo:
  \<^verbatim>\<open>
  if (targetMint && pricing && typeof reserveAmount !== "undefined") {
    return toNumber(targetMint.supply, targetMint) - reserveAmount;
  }
  \<close>
  \<open>toNumber\<close> is the external conversion of the mint's raw supply; the function returns
  nothing (\<open>undefined\<close>) unless the guard holds.
\<close>

definition fundsUsed ::
  "(nat \<Rightarrow> MintInfo \<Rightarrow> number) \<Rightarrow> MintInfo option \<Rightarrow> Pricing option \<Rightarrow> number option
     \<Rightarrow> number option" where
  "fundsUsed toNumber targetMintInfo pricing reserveAmount =
     (case targetMintInfo of
        None \<Rightarrow> None
      | Some tm \<Rightarrow>
          (case pricing of
             None \<Rightarrow> None
           | Some p \<Rightarrow>
               (case reserveAmount of
                  None \<Rightarrow> None
                | Some r \<Rightarrow> Some (js_sub (toNumber (supply' tm) tm) r))))"

text \<open>\<open>fundsHaveBeenUsed = !!fundsUsed && (fundsUsed > 0)\<close>.\<close>

definition fundsHaveBeenUsed :: "number option \<Rightarrow> bool" where
  "fundsHaveBeenUsed fu =
     (\<not> js_not fu \<and> (case fu of None \<Rightarrow> False | Some x \<Rightarrow> js_gt x (Finite 0)))"

text \<open>\<open>bountyClosed = !tokenBonding && !bondingLoading\<close>.\<close>

definition bountyClosed :: "'k TokenBonding option \<Rightarrow> bool \<Rightarrow> bool" where
  "bountyClosed tokenBonding bondingLoading =
     ((case tokenBonding of None \<Rightarrow> True | Some _ \<Rightarrow> False) \<and> \<not> bondingLoading)"

text \<open>
  The \<open>validate\<close> callback handed to \<open>AsyncQtyButton\<close>:
  \<^verbatim>\<open>
  if (isWithdraw) {
    if (pricing) {
      const actualQuantity = -pricing.buyWithBaseAmount(-quantity);
      if (!targetBalance || targetBalance < actualQuantity) { return "Insufficient funds"; }
      if (!connected) { return "Connect Wallet"; }
    }
    return null;
  } else {
    if (!baseBalance || baseBalance < quantity) { return "Insufficient funds"; }
    if (!connected) { return "Connect Wallet"; }
  }
  return null;
  \<close>
  It closes over \<open>isWithdraw\<close>, \<open>pricing\<close>, \<open>targetBalance\<close>, \<open>baseBalance\<close> and
  \<open>connected\<close> (here \<open>connected'\<close>); the result is the blocking message, or \<open>None\<close> for
  \<open>null\<close>. \<open>insufficient b a\<close> is the test \<open>!b || b < a\<close>, whose comparison is only reached
  with \<open>b\<close> defined.
\<close>

definition insufficient :: "number option \<Rightarrow> number \<Rightarrow> bool" where
  "insufficient balance amount =
     (js_not balance \<or> (case balance of None \<Rightarrow> False | Some b \<Rightarrow> js_lt b amount))"

definition validate ::
  "bool \<Rightarrow> Pricing option \<Rightarrow> number option \<Rightarrow> number option \<Rightarrow> bool \<Rightarrow> number
     \<Rightarrow> string option" where
  "validate isWithdraw pricing targetBalance baseBalance connected' quantity =
     (if isWithdraw then
        (case pricing of
           Some p \<Rightarrow>
             (let actualQuantity = js_neg (buyWithBaseAmount p (js_neg quantity))
              in if insufficient targetBalance actualQuantity then Some ''Insufficient funds''
                 else if \<not> connected' then Some ''Connect Wallet''
                 else None)
         | None \<Rightarrow> None)
      else
        (if insufficient baseBalance quantity then Some ''Insufficient funds''
         else if \<not> connected' then Some ''Connect Wallet''
         else None))"

text \<open>
  The \<open>action\<close> callback:
  \<^verbatim>\<open>
  if (isWithdraw && pricing) {
    await tokenBondingSdk?.sell({ targetAmount: -pricing.buyWithBaseAmount(-quantity),
      tokenBonding: tokenBonding?.publicKey!, slippage: 0 });
  } else if (!isWithdraw) {
    await tokenBondingSdk?.buy({ baseAmount: quantity,
      tokenBonding: tokenBonding?.publicKey!, slippage: 0 });
  }
  \<close>
  The SDK is external; the model returns the operations the callback invokes on it, in
  order, with their arguments. \<open>tokenBondingSdk?.\<close> makes no call while the handle is
  \<open>undefined\<close>. \<open>tokenBonding?.publicKey!\<close> is the record's key, or \<open>undefined\<close> without a
  record (the \<open>!\<close> only informs the type checker).
\<close>

datatype 'k SdkCall =
    Sell (targetAmount: number) (tokenBondingKey: "'k option") (slippage: number)
  | Buy (baseAmount: number) (tokenBondingKey: "'k option") (slippage: number)

fun action ::
  "bool \<Rightarrow> Pricing option \<Rightarrow> 's option \<Rightarrow> 'k TokenBonding option \<Rightarrow> number
     \<Rightarrow> 'k SdkCall list" where
  "action True (Some p) tokenBondingSdk tokenBonding quantity =
     (case tokenBondingSdk of
        None \<Rightarrow> []
      | Some sdk \<Rightarrow>
          [Sell (js_neg (buyWithBaseAmount p (js_neg quantity)))
                (map_option publicKey tokenBonding)
                (Finite 0)])"
| "action False pricing tokenBondingSdk tokenBonding quantity =
     (case tokenBondingSdk of
        None \<Rightarrow> []
      | Some sdk \<Rightarrow> [Buy quantity (map_option publicKey tokenBonding) (Finite 0)])"
| "action True None tokenBondingSdk tokenBonding quantity = []"

section \<open>Number(qty)\<close>

text \<open>
  \<open>AsyncQtyButton\<close> converts its text state with \<open>Number\<close>, the language's
  \<open>StringToNumber\<close>: surrounding white space is dropped, the empty string is \<open>+0\<close>, a
  decimal literal (optional sign, \<open>Infinity\<close> or digits with an optional fraction and
  exponent) or an unsigned binary, octal or hexadecimal integer literal is its value
  rounded to a double, and anything else is \<open>NaN\<close>. A string is a list of code units;
  \<open>char\<close> covers the units below 256, which hold every character of a literal and the
  white space characters tab, line feed, vertical tab, form feed, carriage return, space
  and no-break space.
\<close>

definition StrWhiteSpaceChar :: "char \<Rightarrow> bool" where
  "StrWhiteSpaceChar c = ((of_char c :: nat) \<in> {9, 10, 11, 12, 13, 32, 160})"

definition trim :: "string \<Rightarrow> string" where
  "trim s = rev (dropWhile StrWhiteSpaceChar (rev (dropWhile StrWhiteSpaceChar s)))"

text \<open>The value of a digit in the given base, if it is one.\<close>

definition digit_of :: "int \<Rightarrow> char \<Rightarrow> int option" where
  "digit_of base c =
     (let n = (of_char c :: int);
          d = (if 48 \<le> n \<and> n \<le> 57 then n - 48
               else if 97 \<le> n \<and> n \<le> 102 then n - 87
               else if 65 \<le> n \<and> n \<le> 70 then n - 55
               else base)
      in if d < base then Some d else None)"

definition DecimalDigit :: "char \<Rightarrow> bool" where
  "DecimalDigit c = (digit_of 10 c \<noteq> None)"

primrec digits_value :: "int \<Rightarrow> int \<Rightarrow> string \<Rightarrow> int option" where
  "digits_value base acc [] = Some acc"
| "digits_value base acc (c # cs) =
     (case digit_of base c of
        None \<Rightarrow> None
      | Some d \<Rightarrow> digits_value base (acc * base + d) cs)"

text \<open>One or more digits of the base.\<close>

definition Digits :: "int \<Rightarrow> string \<Rightarrow> int option" where
  "Digits base s = (if s = [] then None else digits_value base 0 s)"

datatype literal = Malformed | Infinite | MV rat

text \<open>\<open>ExponentPart\<close>, optional: nothing, or \<open>e\<close>/\<open>E\<close>, an optional sign and digits.\<close>

definition ExponentPart :: "string \<Rightarrow> int option" where
  "ExponentPart s =
     (case s of
        [] \<Rightarrow> Some 0
      | c # t \<Rightarrow>
          if c = CHR ''e'' \<or> c = CHR ''E'' then
            (case t of
               [] \<Rightarrow> None
             | x # ds \<Rightarrow>
                 if x = CHR ''-'' then map_option uminus (Digits 10 ds)
                 else if x = CHR ''+'' then Digits 10 ds
                 else Digits 10 t)
          else None)"

definition StrUnsignedDecimalLiteral :: "string \<Rightarrow> literal" where
  "StrUnsignedDecimalLiteral s =
     (if s = ''Infinity'' then Infinite
      else
        let ip = takeWhile DecimalDigit s;
            r1 = dropWhile DecimalDigit s;
            fp = (case r1 of [] \<Rightarrow> [] | c # t \<Rightarrow>
                    if c = CHR ''.'' then takeWhile DecimalDigit t else []);
            r2 = (case r1 of [] \<Rightarrow> [] | c # t \<Rightarrow>
                    if c = CHR ''.'' then dropWhile DecimalDigit t else r1)
        in case Digits 10 (ip @ fp) of
             None \<Rightarrow> Malformed
           | Some m \<Rightarrow>
               (case ExponentPart r2 of
                  None \<Rightarrow> Malformed
                | Some e \<Rightarrow> MV (of_int m * pow_int 10 (e - int (length fp)))))"

definition NonDecimalIntegerLiteral :: "string \<Rightarrow> literal" where
  "NonDecimalIntegerLiteral s =
     (case s of
        z # x # ds \<Rightarrow>
          if z = CHR ''0'' then
            (let base = (if x = CHR ''x'' \<or> x = CHR ''X'' then 16
                         else if x = CHR ''o'' \<or> x = CHR ''O'' then 8
                         else if x = CHR ''b'' \<or> x = CHR ''B'' then 2
                         else 0)
             in case Digits base ds of None \<Rightarrow> Malformed | Some v \<Rightarrow> MV (of_int v))
          else Malformed
      | _ \<Rightarrow> Malformed)"

text \<open>A literal with its sign, if it has one; the sign is not part of the other bases.\<close>

datatype sign = Plus | Minus

definition StrNumericLiteral :: "string \<Rightarrow> sign \<times> literal" where
  "StrNumericLiteral s =
     (case NonDecimalIntegerLiteral s of
        MV v \<Rightarrow> (Plus, MV v)
      | _ \<Rightarrow>
          (case s of
             [] \<Rightarrow> (Plus, Malformed)
           | c # t \<Rightarrow>
               if c = CHR ''-'' then (Minus, StrUnsignedDecimalLiteral t)
               else if c = CHR ''+'' then (Plus, StrUnsignedDecimalLiteral t)
               else (Plus, StrUnsignedDecimalLiteral s)))"

text \<open>The strings \<open>StringToNumber\<close> can parse.\<close>

definition StringNumericLiteral :: "string \<Rightarrow> bool" where
  "StringNumericLiteral s = (trim s = [] \<or> snd (StrNumericLiteral (trim s)) \<noteq> Malformed)"

fun literal_value :: "literal \<Rightarrow> number" where
  "literal_value Malformed = NaN"
| "literal_value Infinite = PosInf"
| "literal_value (MV r) = round_double r"

definition Number :: "string \<Rightarrow> number" where
  "Number s =
     (let t = trim s
      in if t = [] then Finite 0
         else
           (case StrNumericLiteral t of
              (Plus, l) \<Rightarrow> literal_value l
            | (Minus, l) \<Rightarrow> js_neg (literal_value l)))"

section \<open>The quantity button\<close>

text \<open>
  \<open>AsyncQtyButton\<close> keeps the text \<open>qty\<close>. Its memo \<open>validation\<close> is
  \<open>validate && validate({ quantity: Number(qty) })\<close>: \<open>undefined\<close> without a validator,
  else the validator's answer. The button is disabled when \<open>validation\<close> is truthy, that is
  a non-empty message. A click runs \<open>action({ quantity: Number(qty) })\<close>.
\<close>

definition validation :: "(number \<Rightarrow> string option) option \<Rightarrow> string \<Rightarrow> string option option" where
  "validation validator qty =
     (case validator of None \<Rightarrow> None | Some v \<Rightarrow> Some (v (Number qty)))"

definition isDisabled :: "string option option \<Rightarrow> bool" where
  "isDisabled v = (case v of Some (Some msg) \<Rightarrow> msg \<noteq> [] | _ \<Rightarrow> False)"

definition onClick :: "(number \<Rightarrow> 'a) \<Rightarrow> string \<Rightarrow> 'a" where
  "onClick act qty = act (Number qty)"

section \<open>The mint selector\<close>

text \<open>
  \<open>MintSelect\<close> owns the overlay flag \<open>isOpen\<close> (from \<open>useDisclosure\<close>) and reports to its
  parent through \<open>onChange\<close>. The state holds the flag and one trace of the callbacks the
  component has invoked, oldest first, so that the order of \<open>onChange\<close> and \<open>onClose\<close> is
  part of the state. A search result may lack its \<open>account\<close>, and the account its \<open>mint\<close>.
  \<open>toBase58\<close> is the key's external rendering.
\<close>

record 'k AccountInfo =
  mint :: "'k option"

record 'k TokenResult =
  account :: "'k AccountInfo option"

datatype MintSelectCall = OnChange string | OnClose | OnOpen

record MintSelectState =
  isOpen :: bool
  calls :: "MintSelectCall list"

definition onChange :: "string \<Rightarrow> MintSelectState \<Rightarrow> MintSelectState" where
  "onChange v st = st\<lparr>calls := calls st @ [OnChange v]\<rparr>"

definition onClose :: "MintSelectState \<Rightarrow> MintSelectState" where
  "onClose st = st\<lparr>isOpen := False, calls := calls st @ [OnClose]\<rparr>"

definition onOpen :: "MintSelectState \<Rightarrow> MintSelectState" where
  "onOpen st = st\<lparr>isOpen := True, calls := calls st @ [OnOpen]\<rparr>"

text \<open>
  The overlay's \<open>onSelect\<close>:
  \<^verbatim>\<open>
  const mint = t.account?.mint;
  if (mint) { onChange(mint.toBase58()); onClose(); }
  \<close>
  A key is an object, so \<open>if (mint)\<close> asks whether it is there. \<open>onChange\<close> runs first,
  \<open>onClose\<close> second.
\<close>

definition onSelect :: "('k \<Rightarrow> string) \<Rightarrow> 'k TokenResult \<Rightarrow> MintSelectState \<Rightarrow> MintSelectState" where
  "onSelect toBase58 t st =
     (case (case account t of None \<Rightarrow> None | Some a \<Rightarrow> mint a) of
        None \<Rightarrow> st
      | Some m \<Rightarrow> onClose (onChange (toBase58 m) st))"

section \<open>Facts about rounding\<close>

text \<open>
  \<open>bit_length\<close> counts the binary digits of a positive integer, and \<open>binary_exponent\<close>
  places a positive rational between two neighbouring powers of two.
\<close>

lemma bit_length_nonpos: "n \<le> 0 \<Longrightarrow> bit_length n = 0"
  by (subst bit_length.simps) simp

lemma bit_length_step: "0 < n \<Longrightarrow> bit_length n = 1 + bit_length (n div 2)"
  by (subst bit_length.simps) simp

lemma bit_length_nonneg: "0 \<le> bit_length n"
proof (induction n rule: bit_length.induct)
  case (1 n)
  show ?case
  proof (cases "n \<le> 0")
    case True
    then show ?thesis by (simp add: bit_length_nonpos)
  next
    case False
    then show ?thesis using "1.IH" by (simp add: bit_length_step)
  qed
qed

lemma bit_length_pos: "0 < n \<Longrightarrow> 0 < bit_length n"
  using bit_length_nonneg [of "n div 2"] by (simp add: bit_length_step)

lemma bit_length_bounds:
  "0 < n \<Longrightarrow> 2 ^ nat (bit_length n - 1) \<le> n \<and> n < 2 ^ nat (bit_length n)"
proof (induction n rule: bit_length.induct)
  case (1 n)
  show ?case
  proof (cases "n = 1")
    case True
    then show ?thesis by (simp add: bit_length_step bit_length_nonpos)
  next
    case False
    with "1.prems" have h: "0 < n div 2" by linarith
    from "1.prems" have "\<not> n \<le> 0" by simp
    from "1.IH" [OF this h] have ih: "2 ^ nat (bit_length (n div 2) - 1) \<le> n div 2"
        "n div 2 < 2 ^ nat (bit_length (n div 2))" by auto
    have bl: "bit_length n = 1 + bit_length (n div 2)"
      using "1.prems" by (rule bit_length_step)
    have p: "0 < bit_length (n div 2)" using h by (rule bit_length_pos)
    then have e: "nat (bit_length (n div 2)) = Suc (nat (bit_length (n div 2) - 1))" by linarith
    have "(2::int) ^ nat (bit_length (n div 2)) = 2 * 2 ^ nat (bit_length (n div 2) - 1)"
      by (subst e) simp
    moreover have "2 * (n div 2) \<le> n" by linarith
    ultimately have lo: "(2::int) ^ nat (bit_length (n div 2)) \<le> n" using ih(1) by linarith
    have e2: "nat (1 + bit_length (n div 2)) = Suc (nat (bit_length (n div 2)))" using p by linarith
    have "n < 2 * (n div 2) + 2" by linarith
    then have hi: "n < 2 ^ nat (1 + bit_length (n div 2))" using ih(2) by (subst e2) simp
    show ?thesis using lo hi by (simp add: bl)
  qed
qed

lemma pow2_powi: "pow2 e = 2 powi e"
  by (simp add: pow2_def pow_int_def power_int_def power_one_over inverse_eq_divide)

lemma pow2_pos: "0 < pow2 e"
  by (simp add: pow2_powi)

lemma pow2_add: "pow2 (i + j) = pow2 i * pow2 j"
  by (simp add: pow2_powi power_int_add)

lemma pow2_of_int: "0 \<le> i \<Longrightarrow> of_int (2 ^ nat i) = pow2 i"
  by (simp add: pow2_def pow_int_def)

lemma binary_exponent_bounds:
  assumes "0 < a"
  shows "pow2 (binary_exponent a) \<le> a \<and> a < pow2 (binary_exponent a + 1)"
proof -
  obtain n d where q: "quotient_of a = (n, d)" by (cases "quotient_of a")
  then have d: "0 < d" and a: "a = of_int n / of_int d"
    by (simp_all add: quotient_of_denom_pos quotient_of_div)
  from assms a d have n: "0 < n" by (simp add: zero_less_divide_iff)
  define k where "k = bit_length n - bit_length d"
  have bn: "2 ^ nat (bit_length n - 1) \<le> n" "n < 2 ^ nat (bit_length n)"
    using bit_length_bounds [OF n] by auto
  have bd: "2 ^ nat (bit_length d - 1) \<le> d" "d < 2 ^ nat (bit_length d)"
    using bit_length_bounds [OF d] by auto
  have pn: "0 < bit_length n" and pd: "0 < bit_length d"
    using n d by (auto intro: bit_length_pos)
  have rn: "pow2 (bit_length n - 1) \<le> of_int n" "of_int n < pow2 (bit_length n)"
    using bn pn by (simp_all flip: pow2_of_int)
  have rd: "pow2 (bit_length d - 1) \<le> of_int d" "of_int d < pow2 (bit_length d)"
    using bd pd by (simp_all flip: pow2_of_int)
  have "pow2 (bit_length n) = pow2 (k + 1) * pow2 (bit_length d - 1)"
    by (simp add: k_def flip: pow2_add)
  also have "\<dots> \<le> pow2 (k + 1) * of_int d"
    using rd(1) pow2_pos [of "k + 1"] by simp
  finally have "of_int n < pow2 (k + 1) * of_int d" using rn(2) by simp
  then have hi: "a < pow2 (k + 1)" using d by (simp add: a pos_divide_less_eq)
  have "pow2 (k - 1) * of_int d < pow2 (k - 1) * pow2 (bit_length d)"
    using rd(2) pow2_pos [of "k - 1"] by simp
  also have "\<dots> = pow2 (bit_length n - 1)"
    by (simp add: k_def flip: pow2_add)
  finally have "pow2 (k - 1) * of_int d < of_int n" using rn(1) by simp
  then have lo: "pow2 (k - 1) < a" using d by (simp add: a pos_less_divide_eq)
  have be: "binary_exponent a = (if pow2 k \<le> a then k else k - 1)"
    by (simp add: binary_exponent_def q k_def)
  show ?thesis
  proof (cases "pow2 k \<le> a")
    case True
    then show ?thesis using hi by (simp add: be)
  next
    case False
    then show ?thesis using lo by (simp add: be)
  qed
qed

lemma round_double_examples:
  "round_double (1 / 10) = Finite (3602879701896397 / 36028797018963968)"
  "js_sub (Finite 100) (Finite 30) = Finite 70"
  "js_sub NegZero (Finite 0) = NegZero"
  "js_sub (Finite 5) (Finite 5) = Finite 0"
  by code_simp+

section \<open>Facts about the number operators\<close>

lemma js_gt_zero_iff:
  "js_gt x (Finite 0) = (x = PosInf \<or> (\<exists>r. x = Finite r \<and> 0 < r))"
  by (cases x) (simp_all add: js_gt_def)

lemma js_gt_zero_truthy: "js_gt x (Finite 0) \<Longrightarrow> truthy x"
  by (cases x) (simp_all add: js_gt_def)

lemma js_lt_NaN_right: "js_lt x NaN = False"
  by (cases x) simp_all

lemma js_not_iff:
  "js_not b = (b = None \<or> b = Some (Finite 0) \<or> b = Some NegZero \<or> b = Some NaN)"
proof (cases b)
  case None
  then show ?thesis by simp
next
  case (Some x)
  then show ?thesis by (cases x) auto
qed

lemma insufficient_iff:
  "insufficient b a =
     (b = None \<or> b = Some (Finite 0) \<or> b = Some NegZero \<or> b = Some NaN
      \<or> (\<exists>x. b = Some x \<and> js_lt x a))"
  by (cases b) (auto simp: insufficient_def js_not_iff)

lemma insufficient_NaN: "insufficient b NaN = js_not b"
  by (cases b) (simp_all add: insufficient_def js_lt_NaN_right)

lemma round_double_not_NaN: "round_double r \<noteq> NaN"
  by (simp add: round_double_def Let_def)

lemma js_neg_NaN_iff: "(js_neg x = NaN) = (x = NaN)"
  by (cases x) simp_all

lemma literal_value_NaN_iff: "(literal_value l = NaN) = (l = Malformed)"
  by (cases l) (simp_all add: round_double_not_NaN)

text \<open>\<open>Number\<close> yields \<open>NaN\<close> on exactly the strings that are not numeric literals.\<close>

lemma Number_NaN_iff: "(Number s = NaN) = (\<not> StringNumericLiteral s)"
  by (auto simp: Number_def StringNumericLiteral_def Let_def js_neg_NaN_iff
      literal_value_NaN_iff split: prod.splits sign.splits)

lemma Number_50: "Number ''50'' = Finite 50"
  by code_simp

lemma Number_empty: "Number '''' = Finite 0"
  by code_simp

lemma Number_abc: "Number ''abc'' = NaN"
  by code_simp

lemma Number_examples:
  "Number '' 12.5 '' = Finite (25 / 2)" "Number ''-0'' = NegZero" "Number ''0x1F'' = Finite 31"
  "Number ''-Infinity'' = NegInf" "Number ''12px'' = NaN"
  by code_simp+

section \<open>Action dispatch\<close>

text \<open>
  Without an SDK handle the action calls nothing, whatever the mode: here in contribute
  mode with quantity 50.
\<close>

theorem action_without_sdk:
  "action False None (None :: unit option) (None :: string TokenBonding option) (Finite 50) = []"
  by simp

text \<open>
  C1 (amended). When the SDK handle is available, for every quantity \<open>q\<close>: with the withdraw
  flag set and a pricing object available the action calls the SDK's sell operation with
  target amount \<open>-buyWithBaseAmount(-q)\<close>; with the flag not set it calls the buy operation
  with base amount \<open>q\<close> (50 for the input text \<open>50\<close>); the slippage argument is 0 in both
  calls, and the call is the only one made. When the handle is undefined, no operation is
  called.
\<close>

theorem action_dispatch:
  "action True (Some p) (Some sdk) tokenBonding q =
     [Sell (js_neg (buyWithBaseAmount p (js_neg q))) (map_option publicKey tokenBonding) (Finite 0)]
   \<and> action False pricing (Some sdk) tokenBonding q =
     [Buy q (map_option publicKey tokenBonding) (Finite 0)]
   \<and> onClick (action False pricing (Some sdk) tokenBonding) ''50'' =
     [Buy (Finite 50) (map_option publicKey tokenBonding) (Finite 0)]
   \<and> action isWithdraw pricing None tokenBonding q = []"
proof -
  have "action isWithdraw pricing None tokenBonding q = []"
    by (cases "(isWithdraw, pricing, None :: 'a option, tokenBonding, q)" rule: action.cases)
      auto
  then show ?thesis by (simp add: onClick_def Number_50)
qed

text \<open>A withdrawal without a pricing object calls nothing either.\<close>

lemma action_withdraw_without_pricing: "action True None tokenBondingSdk tokenBonding q = []"
  by simp

section \<open>Validation\<close>

text \<open>
  In withdraw mode a target balance of zero is reported as insufficient although it is
  present and not below the computed amount (here 0); and with target balance 10,
  \<open>buyWithBaseAmount(-5) = -7\<close> and quantity 5, a disconnected wallet is still reported.
\<close>

theorem validate_withdraw_zero_balance:
  "validate True (Some \<lparr>buyWithBaseAmount = (\<lambda>x. x), sellTargetAmount = (\<lambda>x. x)\<rparr>)
     (Some (Finite 0)) None True (Finite 0) = Some ''Insufficient funds''
   \<and> Some (Finite 0) \<noteq> (None :: number option)
   \<and> js_lt (Finite 0) (js_neg ((\<lambda>x. x) (js_neg (Finite 0)))) = False
   \<and> validate True
       (Some \<lparr>buyWithBaseAmount = (\<lambda>x. if x = Finite (- 5) then Finite (- 7) else x),
              sellTargetAmount = (\<lambda>x. x)\<rparr>)
       (Some (Finite 10)) None False (Finite 5) = Some ''Connect Wallet''"
  by (simp add: validate_def insufficient_def)

text \<open>
  C2 (amended). In withdraw mode with a pricing object present, for every quantity \<open>q\<close>
  the validation computes \<open>actualQuantity = -buyWithBaseAmount(-q)\<close> and returns
  "Insufficient funds" exactly when the target-token balance is absent, zero or \<open>NaN\<close>, or
  strictly less than \<open>actualQuantity\<close>. With target balance 10,
  \<open>buyWithBaseAmount(-5) = -7\<close>, quantity 5 and a connected wallet, the actual quantity
  is 7 and validation passes.
\<close>

theorem validate_withdraw:
  "(validate True (Some p) targetBalance baseBalance connected' q = Some ''Insufficient funds'')
     = (targetBalance = None \<or> targetBalance = Some (Finite 0)
        \<or> targetBalance = Some NegZero \<or> targetBalance = Some NaN
        \<or> (\<exists>b. targetBalance = Some b
              \<and> js_lt b (js_neg (buyWithBaseAmount p (js_neg q)))))
   \<and> (buyWithBaseAmount p (Finite (- 5)) = Finite (- 7) \<longrightarrow>
        js_neg (buyWithBaseAmount p (js_neg (Finite 5))) = Finite 7
        \<and> validate True (Some p) (Some (Finite 10)) baseBalance True (Finite 5) = None)"
proof -
  have "(validate True (Some p) targetBalance baseBalance connected' q = Some ''Insufficient funds'')
     = insufficient targetBalance (js_neg (buyWithBaseAmount p (js_neg q)))"
    by (simp add: validate_def Let_def)
  moreover have "buyWithBaseAmount p (Finite (- 5)) = Finite (- 7) \<longrightarrow>
        js_neg (buyWithBaseAmount p (js_neg (Finite 5))) = Finite 7
        \<and> validate True (Some p) (Some (Finite 10)) baseBalance True (Finite 5) = None"
    by (simp add: validate_def insufficient_def)
  ultimately show ?thesis by (simp only: insufficient_iff)
qed

text \<open>The example's curve, which maps \<open>-5\<close> to \<open>-7\<close>.\<close>

theorem validate_withdraw_witness:
  "buyWithBaseAmount \<lparr>buyWithBaseAmount = (\<lambda>x. if x = Finite (- 5) then Finite (- 7) else x),
                       sellTargetAmount = (\<lambda>x. x)\<rparr> (Finite (- 5)) = Finite (- 7)
   \<and> validate True
       (Some \<lparr>buyWithBaseAmount = (\<lambda>x. if x = Finite (- 5) then Finite (- 7) else x),
              sellTargetAmount = (\<lambda>x. x)\<rparr>)
       (Some (Finite 10)) None True (Finite 5) = None"
  using validate_withdraw
    [where p = "\<lparr>buyWithBaseAmount = (\<lambda>x. if x = Finite (- 5) then Finite (- 7) else x),
                 sellTargetAmount = (\<lambda>x. x)\<rparr>"
       and baseBalance = None]
  by simp

text \<open>
  In contribute mode a base balance of zero is reported as insufficient for the quantity 0
  of the empty input, although the balance is present and not below the quantity.
\<close>

theorem validate_contribute_zero_balance:
  "validate False None None (Some (Finite 0)) True (Number '''') = Some ''Insufficient funds''
   \<and> Number '''' = Finite 0
   \<and> Some (Finite 0) \<noteq> (None :: number option)
   \<and> js_lt (Finite 0) (Finite 0) = False"
  by (simp add: Number_empty validate_def insufficient_def)

text \<open>
  C3 (amended). In contribute mode, for every quantity \<open>q\<close> the validation returns
  "Insufficient funds" exactly when the base-currency balance is absent, zero or \<open>NaN\<close>, or
  strictly less than \<open>q\<close>. With base balance 100 and quantity 50 on a connected wallet,
  validation returns no blocking reason, also from the input text \<open>50\<close>.
\<close>

theorem validate_contribute:
  "(validate False pricing targetBalance baseBalance connected' q = Some ''Insufficient funds'')
     = (baseBalance = None \<or> baseBalance = Some (Finite 0)
        \<or> baseBalance = Some NegZero \<or> baseBalance = Some NaN
        \<or> (\<exists>b. baseBalance = Some b \<and> js_lt b q))
   \<and> validate False pricing targetBalance (Some (Finite 100)) True (Finite 50) = None
   \<and> validation (Some (validate False pricing targetBalance (Some (Finite 100)) True)) ''50''
       = Some None"
proof -
  have "(validate False pricing targetBalance baseBalance connected' q = Some ''Insufficient funds'')
     = insufficient baseBalance q"
    by (simp add: validate_def)
  moreover have "validate False pricing targetBalance (Some (Finite 100)) True (Finite 50) = None"
    by (simp add: validate_def insufficient_def)
  moreover have
    "validation (Some (validate False pricing targetBalance (Some (Finite 100)) True)) ''50''
       = Some None"
    by (simp add: validation_def Number_50 validate_def insufficient_def)
  ultimately show ?thesis by (simp only: insufficient_iff)
qed

text \<open>
  In withdraw mode without a pricing object a disconnected wallet passes validation.
\<close>

theorem validate_disconnected_passes:
  "validate True None (Some (Finite 10)) (Some (Finite 100)) False (Finite 5) = None"
  by (simp add: validate_def)

text \<open>
  C4 (amended). In contribute mode, and in withdraw mode when a pricing object is
  available, for every quantity: if the wallet is not connected, the validation returns a
  blocking message rather than passing, namely "Insufficient funds" when the balance check
  fails and "Connect Wallet" otherwise.
\<close>

theorem validate_disconnected:
  "\<not> connected' \<longrightarrow>
     validate False pricing targetBalance baseBalance connected' q =
       Some (if insufficient baseBalance q then ''Insufficient funds'' else ''Connect Wallet'')
     \<and> validate True (Some p) targetBalance baseBalance connected' q =
       Some (if insufficient targetBalance (js_neg (buyWithBaseAmount p (js_neg q)))
             then ''Insufficient funds'' else ''Connect Wallet'')"
  by (simp add: validate_def Let_def)

theorem validate_disconnected_witness:
  "\<not> False
   \<and> validate False None None (Some (Finite 100)) False (Finite 50) = Some ''Connect Wallet''
   \<and> validate False None None (Some (Finite 10)) False (Finite 50) = Some ''Insufficient funds''
   \<and> validate True (Some \<lparr>buyWithBaseAmount = (\<lambda>x. x), sellTargetAmount = (\<lambda>x. x)\<rparr>)
       (Some (Finite 10)) None False (Finite 5) = Some ''Connect Wallet''"
  using
    validate_disconnected
      [where connected' = False and pricing = None and targetBalance = None
         and baseBalance = "Some (Finite 100)" and q = "Finite 50"
         and p = "\<lparr>buyWithBaseAmount = (\<lambda>x. x), sellTargetAmount = (\<lambda>x. x)\<rparr>"]
    validate_disconnected
      [where connected' = False and pricing = None and targetBalance = None
         and baseBalance = "Some (Finite 10)" and q = "Finite 50"
         and p = "\<lparr>buyWithBaseAmount = (\<lambda>x. x), sellTargetAmount = (\<lambda>x. x)\<rparr>"]
    validate_disconnected
      [where connected' = False and targetBalance = "Some (Finite 10)"
         and baseBalance = None and q = "Finite 5"
         and p = "\<lparr>buyWithBaseAmount = (\<lambda>x. x), sellTargetAmount = (\<lambda>x. x)\<rparr>"]
  by (simp add: insufficient_def)

text \<open>
  A text that is no number becomes \<open>NaN\<close>, and \<open>NaN\<close> passes validation in both modes
  when the balance is positive and the wallet connected: the button stays enabled.
\<close>

theorem validate_accepts_NaN:
  "Number ''abc'' = NaN
   \<and> validate False None None (Some (Finite 100)) True (Number ''abc'') = None
   \<and> isDisabled (validation (Some (validate False None None (Some (Finite 100)) True)) ''abc'')
       = False
   \<and> validate True (Some \<lparr>buyWithBaseAmount = (\<lambda>x. x), sellTargetAmount = (\<lambda>x. x)\<rparr>)
       (Some (Finite 10)) None True (Number ''abc'') = None"
  by (simp add: Number_abc validate_def insufficient_def validation_def isDisabled_def)

text \<open>
  C5 (amended). The quantity passed to validation is \<open>Number(qty)\<close>, which is \<open>NaN\<close> for
  every input string that is not a numeric literal. Validation does not reject \<open>NaN\<close> as
  such: every comparison with it is false, so in contribute mode the result is
  "Insufficient funds" when the base balance is absent, zero or \<open>NaN\<close>, else
  "Connect Wallet" when the wallet is not connected, else no blocking reason; in withdraw
  mode with a pricing curve that maps \<open>NaN\<close> to \<open>NaN\<close> the same holds of the target balance.
\<close>

theorem validate_NaN:
  "validation (Some v) qty = Some (v (Number qty))
   \<and> (\<not> StringNumericLiteral qty \<longrightarrow> Number qty = NaN)
   \<and> validate False pricing targetBalance baseBalance connected' NaN
       = (if js_not baseBalance then Some ''Insufficient funds''
          else if \<not> connected' then Some ''Connect Wallet'' else None)
   \<and> (buyWithBaseAmount p NaN = NaN \<longrightarrow>
        validate True (Some p) targetBalance baseBalance connected' NaN
          = (if js_not targetBalance then Some ''Insufficient funds''
             else if \<not> connected' then Some ''Connect Wallet'' else None))"
  by (simp add: validation_def Number_NaN_iff validate_def insufficient_NaN)

theorem validate_NaN_witness:
  "\<not> StringNumericLiteral ''abc'' \<and> Number ''abc'' = NaN
   \<and> buyWithBaseAmount \<lparr>buyWithBaseAmount = (\<lambda>x. x), sellTargetAmount = (\<lambda>x. x)\<rparr> NaN = NaN
   \<and> validate True (Some \<lparr>buyWithBaseAmount = (\<lambda>x. x), sellTargetAmount = (\<lambda>x. x)\<rparr>)
       (Some (Finite 10)) None True NaN = None"
proof -
  have s: "\<not> StringNumericLiteral ''abc''"
    using Number_abc by (simp add: Number_NaN_iff)
  show ?thesis
    using s validate_NaN [where qty = "''abc''" and connected' = True
        and p = "\<lparr>buyWithBaseAmount = (\<lambda>x. x), sellTargetAmount = (\<lambda>x. x)\<rparr>"
        and targetBalance = "Some (Finite 10)" and baseBalance = None]
    by simp
qed

text \<open>
  C10. In withdraw mode, when the pricing object is unavailable, the validation returns
  \<open>null\<close> for every quantity, every balance and also when the wallet is disconnected, so
  the submit control is not disabled whatever the input text.
\<close>

theorem validate_withdraw_without_pricing:
  "validate True None targetBalance baseBalance connected' q = None
   \<and> isDisabled (validation (Some (validate True None targetBalance baseBalance connected')) qty)
       = False"
  by (simp add: validate_def validation_def isDisabled_def)

section \<open>Derived flags\<close>

text \<open>
  C6. For every combination of bonding-record presence and loading flag, \<open>bountyClosed\<close>
  is true if and only if no bonding record is present and loading has completed; whenever
  loading is true, \<open>bountyClosed\<close> is false regardless of record presence.
\<close>

theorem bountyClosed_iff:
  "bountyClosed tokenBonding bondingLoading = (tokenBonding = None \<and> \<not> bondingLoading)
   \<and> bountyClosed tokenBonding True = False"
  by (simp add: bountyClosed_def split: option.split)

text \<open>
  With the target mint and the reserve amount available but no pricing object,
  \<open>fundsUsed\<close> is undefined.
\<close>

theorem fundsUsed_needs_pricing:
  "fundsUsed (\<lambda>s m. Finite (of_nat s)) (Some \<lparr>supply' = 100, decimals = 0\<rparr>) None
     (Some (Finite 30)) = None"
  by (simp add: fundsUsed_def)

text \<open>
  C7 (amended). Whenever the target mint, the pricing object and the current reserve
  amount are all available, \<open>fundsUsed\<close> equals the target mint's total supply (as a
  number) minus the reserve amount; when any of the three is unavailable, \<open>fundsUsed\<close> is
  undefined.
\<close>

theorem fundsUsed_eq:
  "fundsUsed toNumber (Some tm) (Some p) (Some r) = Some (js_sub (toNumber (supply' tm) tm) r)
   \<and> fundsUsed toNumber None pricing reserveAmount = None
   \<and> fundsUsed toNumber targetMintInfo None reserveAmount = None
   \<and> fundsUsed toNumber targetMintInfo pricing None = None"
  by (simp add: fundsUsed_def split: option.split)

text \<open>
  C8. For every value of \<open>fundsUsed\<close> (undefined or any number), \<open>fundsHaveBeenUsed\<close> is
  true if and only if \<open>fundsUsed\<close> is defined and strictly greater than zero (positive
  infinity or a positive finite number); it is false when \<open>fundsUsed\<close> is undefined.
\<close>

theorem fundsHaveBeenUsed_iff:
  "fundsHaveBeenUsed fu = (\<exists>x. fu = Some x \<and> js_gt x (Finite 0))
   \<and> fundsHaveBeenUsed fu = (\<exists>x. fu = Some x \<and> (x = PosInf \<or> (\<exists>r. x = Finite r \<and> 0 < r)))
   \<and> fundsHaveBeenUsed None = False"
  by (cases fu) (auto simp: fundsHaveBeenUsed_def js_gt_zero_iff)

section \<open>Selecting a search result\<close>

text \<open>The trace tells the two orders apart: closing first is a different state.\<close>

lemma onChange_onClose_order: "onClose (onChange v st) \<noteq> onChange v (onClose st)"
proof
  assume "onClose (onChange v st) = onChange v (onClose st)"
  then have "calls (onClose (onChange v st)) = calls (onChange v (onClose st))"
    by simp
  then show False by (simp add: onClose_def onChange_def)
qed

text \<open>
  C9. In the overlay's selection handler: for every selected result that has a mint, the
  change callback is invoked with that mint's base58 string and then the overlay is
  closed: the trace grows by the \<open>onChange\<close> call followed by the \<open>onClose\<close> call, nothing
  else, and the overlay flag is off; a handler closing first would leave another state.
  For every selected result lacking a mint (no account, or an account without one) the
  callback is not invoked and the overlay is not closed: the state, trace included, is
  unchanged.
\<close>

theorem onSelect_mint:
  "(account t = Some a \<and> mint a = Some m \<longrightarrow>
      onSelect toBase58 t st
        = st\<lparr>isOpen := False, calls := calls st @ [OnChange (toBase58 m), OnClose]\<rparr>
      \<and> onSelect toBase58 t st \<noteq> onChange (toBase58 m) (onClose st))
   \<and> (account t = None \<or> (\<exists>a'. account t = Some a' \<and> mint a' = None) \<longrightarrow>
      onSelect toBase58 t st = st)"
proof -
  have "onSelect toBase58 t st
          = st\<lparr>isOpen := False, calls := calls st @ [OnChange (toBase58 m), OnClose]\<rparr>
        \<and> onSelect toBase58 t st \<noteq> onChange (toBase58 m) (onClose st)"
    if "account t = Some a" "mint a = Some m"
  proof -
    from that have s: "onSelect toBase58 t st = onClose (onChange (toBase58 m) st)"
      by (simp add: onSelect_def)
    show ?thesis
      using onChange_onClose_order [of "toBase58 m" st]
      by (simp add: s) (simp add: onClose_def onChange_def)
  qed
  moreover have "onSelect toBase58 t st = st"
    if "account t = None \<or> (\<exists>a'. account t = Some a' \<and> mint a' = None)"
    using that by (auto simp: onSelect_def)
  ultimately show ?thesis by blast
qed

text \<open>
  An open overlay with an empty trace: a result with a mint, one without an account and
  one whose account has no mint.
\<close>

theorem onSelect_mint_witness:
  "onSelect (\<lambda>k. k)
      \<lparr>account = Some \<lparr>mint = Some ''So11111111111111111111111111111111111111112''\<rparr>\<rparr>
      \<lparr>isOpen = True, calls = []\<rparr>
     = \<lparr>isOpen = False,
        calls = [OnChange ''So11111111111111111111111111111111111111112'', OnClose]\<rparr>
   \<and> onSelect (\<lambda>k. k) \<lparr>account = None\<rparr> \<lparr>isOpen = True, calls = []\<rparr>
     = \<lparr>isOpen = True, calls = []\<rparr>
   \<and> onSelect (\<lambda>k. k) \<lparr>account = Some \<lparr>mint = None\<rparr>\<rparr> \<lparr>isOpen = True, calls = []\<rparr>
     = \<lparr>isOpen = True, calls = []\<rparr>"
  using
    onSelect_mint
      [of "\<lparr>account = Some \<lparr>mint = Some ''So11111111111111111111111111111111111111112''\<rparr>\<rparr>"
          "\<lparr>mint = Some ''So11111111111111111111111111111111111111112''\<rparr>"
          "''So11111111111111111111111111111111111111112''"
          "\<lambda>k. k" "\<lparr>isOpen = True, calls = []\<rparr>"]
    onSelect_mint
      [of "\<lparr>account = None\<rparr>" _ _ "\<lambda>k. k :: string"
          "\<lparr>isOpen = True, calls = []\<rparr>"]
    onSelect_mint
      [of "\<lparr>account = Some \<lparr>mint = None\<rparr>\<rparr>" _ _ "\<lambda>k. k :: string"
          "\<lparr>isOpen = True, calls = []\<rparr>"]
  by simp

end
